theory Spec2Isabelle
  imports Complex_Main "HOL-Library.Char_ord" "HOL-Library.List_Lexorder"
begin

section \<open>Strings and numbers of the host language\<close>

text \<open>
  The program is the browser script \<^verbatim>\<open>app.js\<close>. Its strings are modelled as
  \<^typ>\<open>string\<close> (lists of 8-bit characters, so the model covers ASCII text), its
  whole numbers as \<^typ>\<open>int\<close> and the fractions it computes from them as exact
  \<^typ>\<open>real\<close> values. The script itself computes in binary floating point; the
  positions 95 and 35 and the colour channels stated below are what it computes there
  as well.
\<close>

text \<open>\<^verbatim>\<open>s.replace(/a/g, b)\<close> for single characters \<open>a\<close> and \<open>b\<close>.\<close>

definition replaceAll :: "char \<Rightarrow> char \<Rightarrow> string \<Rightarrow> string" where
  "replaceAll a b s = map (\<lambda>c. if c = a then b else c) s"

text \<open>\<^verbatim>\<open>x.replace(/_/g, ' ')\<close>: the display form of an identifier.\<close>

definition displayName :: "string \<Rightarrow> string" where
  "displayName x = replaceAll (CHR ''_'') (CHR '' '') x"

text \<open>\<^verbatim>\<open>x.replace(/ /g, '_')\<close>: the canonical form of an identifier.\<close>

definition normalizeName :: "string \<Rightarrow> string" where
  "normalizeName x = replaceAll (CHR '' '') (CHR ''_'') x"

text \<open>\<^verbatim>\<open>toLowerCase\<close> on ASCII letters; other characters are kept.\<close>

definition lowerChar :: "char \<Rightarrow> char" where
  "lowerChar c =
     (case map_of (zip ''ABCDEFGHIJKLMNOPQRSTUVWXYZ'' ''abcdefghijklmnopqrstuvwxyz'') c of
        Some d \<Rightarrow> d
      | None \<Rightarrow> c)"

definition toLowerCase :: "string \<Rightarrow> string" where
  "toLowerCase s = map lowerChar s"

text \<open>The ASCII white space and line terminators that \<^verbatim>\<open>trim\<close> strips.\<close>

definition isWhiteSpace :: "char \<Rightarrow> bool" where
  "isWhiteSpace c = (c \<in> set [CHR 0x09, CHR 0x0A, CHR 0x0B, CHR 0x0C, CHR 0x0D, CHR 0x20])"

definition trim :: "string \<Rightarrow> string" where
  "trim s = rev (dropWhile isWhiteSpace (rev (dropWhile isWhiteSpace s)))"

text \<open>\<^verbatim>\<open>s.includes(q)\<close>: \<open>q\<close> occurs in \<open>s\<close> as a contiguous substring.\<close>

fun startsWith :: "string \<Rightarrow> string \<Rightarrow> bool" where
  "startsWith s [] = True"
| "startsWith [] (c # q) = False"
| "startsWith (d # s) (c # q) = (d = c \<and> startsWith s q)"

fun includesStr :: "string \<Rightarrow> string \<Rightarrow> bool" where
  "includesStr [] q = startsWith [] q"
| "includesStr (d # s) q = (startsWith (d # s) q \<or> includesStr s q)"

text \<open>Decimal text of a whole number, as \<^verbatim>\<open>Number.prototype.toString\<close> prints it.\<close>

fun showNat :: "nat \<Rightarrow> string" where
  "showNat n =
     (if n < 10 then [''0123456789'' ! n]
      else showNat (n div 10) @ [''0123456789'' ! (n mod 10)])"

declare showNat.simps [simp del]

definition numToString :: "int \<Rightarrow> string" where
  "numToString i = (if i < 0 then ''-'' @ showNat (nat (- i)) else showNat (nat i))"

text \<open>\<^verbatim>\<open>s.padStart(n, c)\<close> for a one-character pad string.\<close>

definition padStart :: "nat \<Rightarrow> char \<Rightarrow> string \<Rightarrow> string" where
  "padStart n c s = replicate (n - length s) c @ s"

text \<open>\<^verbatim>\<open>Math.round\<close>: the nearest whole number, halves going up.\<close>

definition mathRound :: "real \<Rightarrow> int" where
  "mathRound x = \<lfloor>x + 1 / 2\<rfloor>"

section \<open>Occupancy colour\<close>

text \<open>
  \<^verbatim>\<open>getOccupancyColor(percentage)\<close>, lines 26 to 45: clamp, divide by 100, then one
  of two linear segments; the result is the text \<^verbatim>\<open>rgb(r,g,b)\<close>.
\<close>

definition getOccupancyColor :: "real \<Rightarrow> string" where
  "getOccupancyColor percentage =
     (let p = min (max percentage 0) 100 / 100;
          rgb = (if p < 1 / 2
                 then (mathRound (0 + 255 * (p / (1 / 2))), 180, 0)
                 else (255, mathRound (180 * (1 - (p - 1 / 2) / (1 / 2))), 0))
      in case rgb of (r, g, b) \<Rightarrow>
           ''rgb('' @ numToString r @ '','' @ numToString g @ '','' @ numToString b @ '')'')"

section \<open>The feed's data\<close>

text \<open>
  A value of the feed as \<^verbatim>\<open>snapshot.val()\<close> delivers it. The realtime database stores
  no \<^verbatim>\<open>null\<close> inside a value, so there is no constructor for it; an object is the
  list of its entries in key iteration order. Numbers of the feed are whole (seconds).
\<close>

datatype json =
    JNum int
  | JStr string
  | JBool bool
  | JArr "json list"
  | JObj "(string \<times> json) list"

text \<open>A station entry is an object: line name to destinations, or the marker \<^verbatim>\<open>{"NA":"NA"}\<close>.\<close>

type_synonym stationEntry = "(string \<times> json) list"

text \<open>
  The snapshot's fields the script reads; \<open>None\<close> is an absent field
  (\<^verbatim>\<open>undefined\<close>).
\<close>

record snapshot =
  timestamp :: "int option"
  current_wait_times :: "(string \<times> stationEntry) list option"
  Occupancy :: "real option"

text \<open>
  A property read \<^verbatim>\<open>obj[name]\<close> on a plain object delivers the object's own entry
  under that name, and otherwise what every object inherits from
  \<^verbatim>\<open>Object.prototype\<close>. These are the inherited names; each of them reads as a
  function, and \<^verbatim>\<open>__proto__\<close> as the prototype itself. Such a value is truthy, has
  no property \<^verbatim>\<open>NA\<close> and no enumerable key of its own.
\<close>

definition objectPrototypeNames :: "string list" where
  "objectPrototypeNames =
     [''constructor'', ''__defineGetter__'', ''__defineSetter__'', ''hasOwnProperty'',
      ''__lookupGetter__'', ''__lookupSetter__'', ''isPrototypeOf'', ''propertyIsEnumerable'',
      ''toString'', ''valueOf'', ''__proto__'', ''toLocaleString'']"

text \<open>
  The text an inherited value turns into inside a template literal. The text of a
  built-in function is the engine's own; it is given here as V8 prints it.
\<close>

definition builtinText :: "string \<Rightarrow> string" where
  "builtinText name =
     (if name = ''__proto__'' then ''[object Object]''
      else ''function '' @ (if name = ''constructor'' then ''Object'' else name)
           @ ''() { [native code] }'')"

text \<open>
  What \<^verbatim>\<open>metroData.current_wait_times[station]\<close> delivers when it is not
  \<^verbatim>\<open>undefined\<close>: a station entry of the snapshot, or an inherited value.
\<close>

datatype stationValue = Entry stationEntry | Builtin

definition getStation :: "(string \<times> stationEntry) list \<Rightarrow> string \<Rightarrow> stationValue option" where
  "getStation cwt station =
     (case map_of cwt station of
        Some entry \<Rightarrow> Some (Entry entry)
      | None \<Rightarrow> if station \<in> set objectPrototypeNames then Some Builtin else None)"

text \<open>\<^verbatim>\<open>stationData.NA\<close> and \<^verbatim>\<open>Object.entries(stationData)\<close> on such a value.\<close>

definition propertyNA :: "stationValue \<Rightarrow> json option" where
  "propertyNA stationData =
     (case stationData of Entry entry \<Rightarrow> map_of entry ''NA'' | Builtin \<Rightarrow> None)"

definition objectEntries :: "stationValue \<Rightarrow> (string \<times> json) list" where
  "objectEntries stationData = (case stationData of Entry entry \<Rightarrow> entry | Builtin \<Rightarrow> [])"

text \<open>
  The table \<^verbatim>\<open>lineColors\<close> and the lookup \<^verbatim>\<open>lineColors[line] || '#666'\<close>, which
  reads inherited names as well.
\<close>

definition lineColors :: "(string \<times> string) list" where
  "lineColors =
     [(''Azul'', ''#0066cc''), (''Verde'', ''#00a550''),
      (''Vermelha'', ''#e3000b''), (''Amarela'', ''#ffcc00'')]"

definition lineColorOf :: "string \<Rightarrow> string" where
  "lineColorOf line =
     (case map_of lineColors line of
        Some c \<Rightarrow> c
      | None \<Rightarrow> if line \<in> set objectPrototypeNames then builtinText line else ''#666'')"

section \<open>The page\<close>

text \<open>
  The markup the script writes is kept as a tree of its templates: one constructor for
  each template literal, holding the values interpolated into it, in the order the script
  appends them.
\<close>

datatype frag =
    LineCardOpen
  | LineHeader string string
  | DestinationDiv string
  | WaitTimesOpen
  | WaitTimeNA
  | WaitTime real string string
  | TrainLineOpen
  | TrainTrack string
  | TrainIcon real string string real
  | NoData
  | DivClose

text \<open>
  \<open>WaitTime darkness lineColor formatted\<close>; \<open>TrainIcon position occupancyColor wait
  occupancyPercentage\<close>; \<open>LineHeader lineName lineColor\<close>.
\<close>

datatype badges = LineBadges "(string \<times> string) list" | ClosedBadge

text \<open>\<open>ListItem station isClosed name badges\<close>: one row of the station list.\<close>

datatype listItem = ListItem string bool string badges

text \<open>
  What \<^verbatim>\<open>resultsDiv.innerHTML\<close> holds: the static page's own content before the
  script writes, an empty-state paragraph, a card with a heading and a message, the
  station list, or a station card (heading, body, and the two totals of the footer).
\<close>

datatype resultsView =
    InitialResults
  | EmptyState string
  | MessageCard string string
  | StationList "listItem list"
  | StationCard string "frag list" nat nat

text \<open>The heading (\<^verbatim>\<open>station-name\<close>) of a card, when the view is a card.\<close>

fun headingOf :: "resultsView \<Rightarrow> string option" where
  "headingOf (MessageCard heading _) = Some heading"
| "headingOf (StationCard heading _ _ _) = Some heading"
| "headingOf _ = None"

text \<open>What \<^verbatim>\<open>suggestionsDiv.innerHTML\<close> holds; an item is (station, shown name).\<close>

datatype suggestionsView =
    NoSuggestions
  | SuggestionItems "(string \<times> string) list"
  | NoStationsFound

text \<open>The module's variables and the parts of the page it writes.\<close>

record appState =
  metroData :: "snapshot option"
  allStations :: "string list"
  currentStation :: "string option"
  occupancyPercentage :: real
  resultsHtml :: resultsView
  lastUpdateShown :: "int option"
  searchValue :: string
  suggestionsHtml :: suggestionsView
  suggestionsActive :: bool
  goBackInstalled :: bool

text \<open>The state when the module has been loaded (lines 12 to 15).\<close>

definition initialState :: appState where
  "initialState =
     \<lparr> metroData = None, allStations = [], currentStation = None,
       occupancyPercentage = 50, resultsHtml = InitialResults, lastUpdateShown = None,
       searchValue = [], suggestionsHtml = NoSuggestions, suggestionsActive = False,
       goBackInstalled = False \<rparr>"

text \<open>\<^verbatim>\<open>metroData && metroData.current_wait_times\<close>.\<close>

definition waitTimesOf :: "appState \<Rightarrow> (string \<times> stationEntry) list option" where
  "waitTimesOf st = (case metroData st of None \<Rightarrow> None | Some d \<Rightarrow> current_wait_times d)"

section \<open>Detail rendering\<close>

text \<open>
  \<^verbatim>\<open>waitTimes.filter(t => typeof t === 'number' && t > 0)\<close> (line 257) and
  \<^verbatim>\<open>validTimes.length > 0 ? Math.max(...validTimes) : 0\<close> (line 258).
\<close>

fun validTimesOf :: "json list \<Rightarrow> int list" where
  "validTimesOf [] = []"
| "validTimesOf (JNum t # ts) = (if t > 0 then t # validTimesOf ts else validTimesOf ts)"
| "validTimesOf (_ # ts) = validTimesOf ts"

definition maxTimeOf :: "int list \<Rightarrow> int" where
  "maxTimeOf validTimes = (case validTimes of [] \<Rightarrow> 0 | t # ts \<Rightarrow> foldl max t ts)"

text \<open>
  The text \<^verbatim>\<open>${minutes}:${seconds.toString().padStart(2, '0')}\<close> of a positive whole
  number of seconds (lines 265 to 267, and again in the marker's title at line 289).
\<close>

definition formatTime :: "int \<Rightarrow> string" where
  "formatTime time =
     (let minutes = time div 60;
          seconds = time mod 60
      in numToString minutes @ '':'' @ padStart 2 (CHR ''0'') (numToString seconds))"

text \<open>The body of \<^verbatim>\<open>waitTimes.forEach\<close>, lines 260 to 275: one raw sample.\<close>

definition renderWaitTime :: "string \<Rightarrow> int \<Rightarrow> frag list \<Rightarrow> json \<Rightarrow> frag list" where
  "renderWaitTime lineColor maxTime html time =
     (if time = JStr ''--'' \<or> time = JStr ''NA'' then html @ [WaitTimeNA]
      else case time of
        JNum t \<Rightarrow>
          if t > 0 then
            let formatted = formatTime t;
                darkness = (if maxTime > 0 then (real_of_int t / real_of_int maxTime) * (7 / 10) else 0)
            in html @ [WaitTime darkness lineColor formatted]
          else html
      | _ \<Rightarrow> html)"

text \<open>The body of \<^verbatim>\<open>validTimes.forEach\<close>, lines 283 to 292: one marker.\<close>

definition renderTrain :: "real \<Rightarrow> int \<Rightarrow> frag list \<Rightarrow> int \<Rightarrow> frag list" where
  "renderTrain occupancy maxTime html time =
     (let position = 5 + (real_of_int time / real_of_int maxTime) * 90;
          occupancyColor = getOccupancyColor occupancy
      in html @ [TrainIcon position occupancyColor (formatTime time) occupancy])"

text \<open>
  The body of the loop over a line's destinations, lines 249 to 296. The accumulator is
  \<open>(html, hasData, totalDestinations)\<close>.
\<close>

definition renderDestination ::
  "string \<Rightarrow> real \<Rightarrow> frag list \<times> bool \<times> nat \<Rightarrow> string \<times> json \<Rightarrow> frag list \<times> bool \<times> nat" where
  "renderDestination lineColor occupancy acc entry =
     (case acc of (html, hasData, totalDestinations) \<Rightarrow>
      case entry of (destination, waitTimes) \<Rightarrow>
        (case waitTimes of
           JArr ws \<Rightarrow>
             if length ws > 0 then
               let html1 = html @ [DestinationDiv (displayName destination)] @ [WaitTimesOpen];
                   validTimes = validTimesOf ws;
                   maxTime = maxTimeOf validTimes;
                   html2 = foldl (renderWaitTime lineColor maxTime) html1 ws @ [DivClose];
                   html3 =
                     (if length validTimes > 0 then
                        foldl (renderTrain occupancy maxTime)
                          (html2 @ [TrainLineOpen] @ [TrainTrack lineColor]) validTimes
                        @ [DivClose]
                      else html2)
               in (html3, True, totalDestinations + 1)
             else acc
         | _ \<Rightarrow> acc))"

text \<open>
  The body of the loop over the station's lines, lines 234 to 306. The accumulator is
  \<open>(html, totalLines, totalDestinations)\<close>.
\<close>

definition renderLine ::
  "real \<Rightarrow> frag list \<times> nat \<times> nat \<Rightarrow> string \<times> json \<Rightarrow> frag list \<times> nat \<times> nat" where
  "renderLine occupancy acc entry =
     (case acc of (html, totalLines, totalDestinations) \<Rightarrow>
      case entry of (lineName, destinations) \<Rightarrow>
        if lineName = ''NA'' then acc
        else
          let lineColor = lineColorOf lineName;
              html1 = html @ [LineCardOpen] @ [LineHeader lineName lineColor]
          in (case destinations of
                JObj ds \<Rightarrow>
                  (case foldl (renderDestination lineColor occupancy)
                          (html1, False, totalDestinations) ds of
                     (html2, hasData, totalDestinations2) \<Rightarrow>
                       ((if \<not> hasData then html2 @ [NoData] else html2) @ [DivClose],
                        totalLines + 1, totalDestinations2))
              | _ \<Rightarrow> (html1 @ [NoData] @ [DivClose], totalLines + 1, totalDestinations)))"

text \<open>
  Line 183 to 186: the key under which the station is looked up, and the value read
  there. An entry and an inherited value are both truthy, so the first read succeeds
  whenever it delivers something.
\<close>

definition resolveKey :: "(string \<times> stationEntry) list \<Rightarrow> string \<Rightarrow> string" where
  "resolveKey cwt stationName =
     (if getStation cwt stationName \<noteq> None then stationName else normalizeName stationName)"

definition lookupStation :: "(string \<times> stationEntry) list \<Rightarrow> string \<Rightarrow> stationValue option" where
  "lookupStation cwt stationName = getStation cwt (resolveKey cwt stationName)"

text \<open>\<^verbatim>\<open>displayStation(stationName)\<close>, lines 171 to 311.\<close>

definition displayStation :: "string \<Rightarrow> appState \<Rightarrow> appState" where
  "displayStation stationName st0 =
     (let st = st0\<lparr>currentStation := Some stationName\<rparr> in
      case waitTimesOf st of
        None \<Rightarrow> st\<lparr>resultsHtml := EmptyState ''Loading data...''\<rparr>
      | Some cwt \<Rightarrow>
          (case lookupStation cwt stationName of
             None \<Rightarrow> st\<lparr>resultsHtml := EmptyState ''Station not found''\<rparr>
           | Some stationData \<Rightarrow>
               if propertyNA stationData = Some (JStr ''NA'') then
                 st\<lparr>resultsHtml :=
                      MessageCard (displayName stationName) ''Station is currently closed''\<rparr>
               else if length (map fst (objectEntries stationData)) = 0 then
                 st\<lparr>resultsHtml :=
                      MessageCard (displayName stationName) ''No data available for this station''\<rparr>
               else
                 (case foldl (renderLine (occupancyPercentage st)) ([], 0, 0)
                         (objectEntries stationData) of
                    (html, totalLines, totalDestinations) \<Rightarrow>
                      st\<lparr>goBackInstalled := True,
                         resultsHtml :=
                           StationCard (displayName stationName) html totalLines totalDestinations\<rparr>)))"

section \<open>List rendering and the feed subscription\<close>

text \<open>The body of \<^verbatim>\<open>allStations.forEach\<close> in \<^verbatim>\<open>showStationList\<close>, lines 144 to 159.\<close>

definition renderListItem :: "(string \<times> stationEntry) list \<Rightarrow> string \<Rightarrow> listItem" where
  "renderListItem cwt station =
     (let stationData = getStation cwt station;
          isClosed = (case stationData of
                        None \<Rightarrow> False
                      | Some sd \<Rightarrow> propertyNA sd = Some (JStr ''NA''));
          lines = (case stationData of
                     None \<Rightarrow> None
                   | Some sd \<Rightarrow> Some (filter (\<lambda>k. k \<noteq> ''NA'') (map fst (objectEntries sd))))
      in ListItem station isClosed (displayName station)
           (case lines of
              None \<Rightarrow> ClosedBadge
            | Some ls \<Rightarrow>
                if length ls > 0 then LineBadges (map (\<lambda>line. (line, lineColorOf line)) ls)
                else ClosedBadge))"

text \<open>\<^verbatim>\<open>showStationList()\<close>, lines 134 to 163.\<close>

definition showStationList :: "appState \<Rightarrow> appState" where
  "showStationList st =
     (case waitTimesOf st of
        None \<Rightarrow> st\<lparr>resultsHtml := EmptyState ''Loading stations...''\<rparr>
      | Some cwt \<Rightarrow> st\<lparr>resultsHtml := StationList (map (renderListItem cwt) (allStations st))\<rparr>)"

text \<open>
  \<^verbatim>\<open>updateLastUpdate(timestamp)\<close>, lines 126 to 132: a truthy timestamp is shown (as
  a local time of day, which the model keeps as the timestamp itself).
\<close>

definition updateLastUpdate :: "int option \<Rightarrow> appState \<Rightarrow> appState" where
  "updateLastUpdate ts st =
     (case ts of
        None \<Rightarrow> st
      | Some t \<Rightarrow> if t \<noteq> 0 then st\<lparr>lastUpdateShown := Some t\<rparr> else st)"

text \<open>
  Lines 54 to 65 of the subscription's callback: what a delivered snapshot stores before
  anything is rendered again.
\<close>

definition storeSnapshot :: "snapshot \<Rightarrow> appState \<Rightarrow> appState" where
  "storeSnapshot data st =
     (let st1 = st\<lparr>metroData := Some data,
                    allStations :=
                      sort (map fst (case current_wait_times data of None \<Rightarrow> [] | Some cwt \<Rightarrow> cwt))\<rparr>;
          st2 = updateLastUpdate (timestamp data) st1
      in case Occupancy data of
           Some v \<Rightarrow> st2\<lparr>occupancyPercentage := v\<rparr>
         | None \<Rightarrow> st2)"

text \<open>
  The callback of \<^verbatim>\<open>onValue\<close>, lines 51 to 74. \<open>None\<close> is a delivery whose value is
  \<^verbatim>\<open>null\<close>; the test \<^verbatim>\<open>if (currentStation)\<close> fails for \<^verbatim>\<open>null\<close> and for the empty
  string.
\<close>

definition onValue :: "snapshot option \<Rightarrow> appState \<Rightarrow> appState" where
  "onValue val st =
     (case val of
        None \<Rightarrow> st
      | Some data \<Rightarrow>
          let st1 = storeSnapshot data st in
          (case currentStation st1 of
             None \<Rightarrow> showStationList st1
           | Some station \<Rightarrow>
               if station \<noteq> [] then displayStation station st1 else showStationList st1))"

text \<open>\<^verbatim>\<open>window.goBack\<close>, lines 225 to 228, and \<^verbatim>\<open>window.selectStation\<close>, lines 166 to 169.\<close>

definition goBack :: "appState \<Rightarrow> appState" where
  "goBack st = showStationList (st\<lparr>currentStation := None\<rparr>)"

definition selectStation :: "string \<Rightarrow> appState \<Rightarrow> appState" where
  "selectStation stationName st =
     displayStation stationName (st\<lparr>searchValue := displayName stationName\<rparr>)"

section \<open>Search\<close>

text \<open>The filter of lines 89 to 91.\<close>

definition filterStations :: "string list \<Rightarrow> string \<Rightarrow> string list" where
  "filterStations stations query =
     filter (\<lambda>station. includesStr (displayName (toLowerCase station)) query) stations"

text \<open>The handler of the search box's \<^verbatim>\<open>input\<close> event, lines 80 to 116.\<close>

definition onSearchInput :: "string \<Rightarrow> appState \<Rightarrow> appState" where
  "onSearchInput val st0 =
     (let st = st0\<lparr>searchValue := val\<rparr>;
          query = trim (toLowerCase val)
      in if query = [] then st\<lparr>suggestionsActive := False, suggestionsHtml := NoSuggestions\<rparr>
         else
           let filtered = filterStations (allStations st) query in
           if length filtered > 0 then
             st\<lparr>suggestionsHtml :=
                  SuggestionItems (map (\<lambda>station. (station, displayName station)) filtered),
                suggestionsActive := True\<rparr>
           else st\<lparr>suggestionsHtml := NoStationsFound, suggestionsActive := True\<rparr>)"

text \<open>The click handler of a suggestion, lines 105 to 110.\<close>

definition clickSuggestion :: "string \<Rightarrow> appState \<Rightarrow> appState" where
  "clickSuggestion stationName st =
     displayStation stationName
       (st\<lparr>searchValue := displayName stationName, suggestionsActive := False\<rparr>)"

text \<open>A click outside the search container, lines 119 to 123.\<close>

definition clickOutside :: "appState \<Rightarrow> appState" where
  "clickOutside st = st\<lparr>suggestionsActive := False\<rparr>"

section \<open>An example feed\<close>

text \<open>
  A snapshot with a closed station, a station whose entry is empty, a station with one
  line, and a station whose entry holds the closed marker beside a line.
\<close>

definition exampleWaitTimes :: "(string \<times> stationEntry) list" where
  "exampleWaitTimes =
     [(''Zoo'', [(''NA'', JStr ''NA'')]),
      (''Central_Park'', [(''Azul'', JObj [(''Airport'', JArr [JNum 90, JNum 30, JStr ''--''])])]),
      (''Old_Town'', []),
      (''Harbour'', [(''Verde'', JObj [(''Zoo'', JArr [JNum 60])]), (''NA'', JStr ''NA'')])]"

definition exampleSnapshot :: snapshot where
  "exampleSnapshot =
     \<lparr> timestamp = Some 1700000000000, current_wait_times = Some exampleWaitTimes,
       Occupancy = Some 75 \<rparr>"

definition snapshotWithoutOccupancy :: snapshot where
  "snapshotWithoutOccupancy =
     \<lparr> timestamp = None, current_wait_times = Some exampleWaitTimes, Occupancy = None \<rparr>"

definition exampleState :: appState where
  "exampleState = onValue (Some exampleSnapshot) initialState"

section \<open>Auxiliary facts\<close>

lemmas eval_defs =
  mathRound_def numToString_def showNat.simps padStart_def formatTime_def

subsection \<open>Strings\<close>

lemma startsWith_iff: "startsWith s q \<longleftrightarrow> (\<exists>post. s = q @ post)"
  by (induction s q rule: startsWith.induct) auto

lemma includesStr_iff: "includesStr s q \<longleftrightarrow> (\<exists>pre post. s = pre @ q @ post)"
proof (induction s)
  case Nil
  then show ?case by (simp add: startsWith_iff)
next
  case (Cons d s)
  show ?case
  proof
    assume "includesStr (d # s) q"
    then consider "startsWith (d # s) q" | "includesStr s q" by auto
    then show "\<exists>pre post. d # s = pre @ q @ post"
    proof cases
      case 1
      then obtain post where "d # s = q @ post" by (auto simp: startsWith_iff)
      then have "d # s = [] @ q @ post" by simp
      then show ?thesis by blast
    next
      case 2
      then obtain pre post where "s = pre @ q @ post" using Cons.IH by auto
      then have "d # s = (d # pre) @ q @ post" by simp
      then show ?thesis by blast
    qed
  next
    assume "\<exists>pre post. d # s = pre @ q @ post"
    then obtain pre post where eq: "d # s = pre @ q @ post" by auto
    show "includesStr (d # s) q"
    proof (cases pre)
      case Nil
      with eq have "startsWith (d # s) q" by (auto simp: startsWith_iff)
      then show ?thesis by simp
    next
      case (Cons e pre')
      with eq have "s = pre' @ q @ post" by simp
      then have "includesStr s q" using Cons.IH by blast
      then show ?thesis by simp
    qed
  qed
qed

lemma lowerChar_underscore: "lowerChar c = CHR ''_'' \<longleftrightarrow> c = CHR ''_''"
  by (auto simp: lowerChar_def split: if_splits)

lemma displayName_toLowerCase: "displayName (toLowerCase s) = toLowerCase (displayName s)"
proof -
  have sp: "lowerChar (CHR '' '') = CHR '' ''" by (simp add: lowerChar_def)
  show ?thesis
    by (induction s) (auto simp: displayName_def toLowerCase_def replaceAll_def lowerChar_underscore sp)
qed




subsection \<open>What detail rendering writes\<close>

lemma displayStation_currentStation: "currentStation (displayStation name st) = Some name"
  by (simp add: displayStation_def Let_def split: option.splits prod.splits)

lemma displayStation_occupancy:
  "occupancyPercentage (displayStation name st) = occupancyPercentage st"
  by (simp add: displayStation_def Let_def split: option.splits prod.splits)

lemma displayStation_read:
  assumes "waitTimesOf st = Some cwt" "lookupStation cwt name = Some stationData"
  shows "resultsHtml (displayStation name st) =
     (if propertyNA stationData = Some (JStr ''NA'') then
        MessageCard (displayName name) ''Station is currently closed''
      else if objectEntries stationData = [] then
        MessageCard (displayName name) ''No data available for this station''
      else
        (case foldl (renderLine (occupancyPercentage st)) ([], 0, 0)
                (objectEntries stationData) of
           (html, totalLines, totalDestinations) \<Rightarrow>
             StationCard (displayName name) html totalLines totalDestinations))"
  using assms
  by (simp add: displayStation_def Let_def waitTimesOf_def split: option.splits prod.splits)

lemma displayStation_found:
  assumes "waitTimesOf st = Some cwt" "lookupStation cwt name = Some (Entry entry)"
  shows "resultsHtml (displayStation name st) =
     (if map_of entry ''NA'' = Some (JStr ''NA'') then
        MessageCard (displayName name) ''Station is currently closed''
      else if entry = [] then
        MessageCard (displayName name) ''No data available for this station''
      else
        (case foldl (renderLine (occupancyPercentage st)) ([], 0, 0) entry of
           (html, totalLines, totalDestinations) \<Rightarrow>
             StationCard (displayName name) html totalLines totalDestinations))"
  using displayStation_read [OF assms]
  by (simp add: propertyNA_def objectEntries_def)

lemma displayStation_inherited:
  assumes "waitTimesOf st = Some cwt" "lookupStation cwt name = Some Builtin"
  shows "resultsHtml (displayStation name st) =
     MessageCard (displayName name) ''No data available for this station''"
  using displayStation_read [OF assms]
  by (simp add: propertyNA_def objectEntries_def)

lemma displayStation_absent:
  assumes "waitTimesOf st = Some cwt" "lookupStation cwt name = None"
  shows "resultsHtml (displayStation name st) = EmptyState ''Station not found''"
  using assms
  by (simp add: displayStation_def Let_def waitTimesOf_def split: option.splits)

lemma displayStation_loading:
  assumes "waitTimesOf st = None"
  shows "resultsHtml (displayStation name st) = EmptyState ''Loading data...''"
  using assms
  by (simp add: displayStation_def Let_def waitTimesOf_def split: option.splits)




lemma getStation_Entry_iff:
  "getStation cwt k = Some (Entry entry) \<longleftrightarrow> map_of cwt k = Some entry"
  by (simp add: getStation_def split: option.splits)



lemma render_example_destination:
  "renderDestination lineColor occupancy (html, hasData, n)
       (destination, JArr [JNum 90, JNum 30, JStr ''--'']) =
     (html @
      [DestinationDiv (displayName destination), WaitTimesOpen,
       WaitTime (7 / 10) lineColor ''1:30'', WaitTime (7 / 30) lineColor ''0:30'', WaitTimeNA,
       DivClose,
       TrainLineOpen, TrainTrack lineColor,
       TrainIcon 95 (getOccupancyColor occupancy) ''1:30'' occupancy,
       TrainIcon 35 (getOccupancyColor occupancy) ''0:30'' occupancy,
       DivClose],
      True, n + 1)"
  by (simp add: renderDestination_def maxTimeOf_def renderWaitTime_def renderTrain_def eval_defs)

subsection \<open>What a delivered snapshot stores\<close>

lemma showStationList_occupancy:
  "occupancyPercentage (showStationList st) = occupancyPercentage st"
  by (simp add: showStationList_def split: option.splits)

lemma storeSnapshot_occupancy:
  "occupancyPercentage (storeSnapshot d st) =
     (case Occupancy d of None \<Rightarrow> occupancyPercentage st | Some v \<Rightarrow> v)"
  by (simp add: storeSnapshot_def updateLastUpdate_def Let_def split: option.splits)

lemma displayStation_allStations: "allStations (displayStation name st) = allStations st"
  by (simp add: displayStation_def Let_def split: option.splits prod.splits)

lemma showStationList_allStations: "allStations (showStationList st) = allStations st"
  by (simp add: showStationList_def split: option.splits)

lemma storeSnapshot_allStations:
  "allStations (storeSnapshot data st) =
     sort (map fst (case current_wait_times data of None \<Rightarrow> [] | Some cwt \<Rightarrow> cwt))"
  by (simp add: storeSnapshot_def updateLastUpdate_def Let_def split: option.splits)

lemma onValue_allStations:
  "allStations (onValue (Some data) st) =
     sort (map fst (case current_wait_times data of None \<Rightarrow> [] | Some cwt \<Rightarrow> cwt))"
  by (simp add: onValue_def Let_def displayStation_allStations showStationList_allStations
      storeSnapshot_allStations split: option.splits)

lemma storeSnapshot_currentStation:
  "currentStation (storeSnapshot data st) = currentStation st"
  by (simp add: storeSnapshot_def updateLastUpdate_def Let_def split: option.splits)

subsection \<open>The example feed\<close>

lemma exampleState_waitTimes: "waitTimesOf exampleState = Some exampleWaitTimes"
  by (simp add: exampleState_def onValue_def storeSnapshot_def updateLastUpdate_def
      initialState_def exampleSnapshot_def showStationList_def waitTimesOf_def)

lemma exampleState_occupancy: "occupancyPercentage exampleState = 75"
  by (simp add: exampleState_def onValue_def storeSnapshot_def updateLastUpdate_def
      initialState_def exampleSnapshot_def showStationList_def waitTimesOf_def)

lemma exampleState_allStations:
  "allStations exampleState = [''Central_Park'', ''Harbour'', ''Old_Town'', ''Zoo'']"
  by (simp add: exampleState_def onValue_def storeSnapshot_def updateLastUpdate_def
      initialState_def exampleSnapshot_def showStationList_def waitTimesOf_def
      exampleWaitTimes_def)

text \<open>
  A name that every object inherits, asked for on a feed that has no such station: the
  read delivers the inherited value, and the view is the card without data.
\<close>

lemma displayStation_inherited_example:
  "map_of exampleWaitTimes ''constructor'' = None
   \<and> lookupStation exampleWaitTimes ''constructor'' = Some Builtin
   \<and> resultsHtml (displayStation ''constructor'' exampleState) =
       MessageCard ''constructor'' ''No data available for this station''"
proof -
  have l: "lookupStation exampleWaitTimes ''constructor'' = Some Builtin"
    by (simp add: lookupStation_def resolveKey_def getStation_def objectPrototypeNames_def
        exampleWaitTimes_def)
  show ?thesis
    using l displayStation_inherited [OF exampleState_waitTimes l]
    by (simp add: exampleWaitTimes_def displayName_def replaceAll_def)
qed

lemma lineColorOf_examples:
  "lineColorOf ''Verde'' = ''#00a550''
   \<and> lineColorOf ''Roxa'' = ''#666''
   \<and> lineColorOf ''constructor'' = ''function Object() { [native code] }''"
  by (simp add: lineColorOf_def lineColors_def objectPrototypeNames_def builtinText_def)

section \<open>The claims\<close>

subsection \<open>C1: the wait-time sequence 90, 30, unavailable\<close>

text \<open>
  Claim C1. For a destination whose wait-time sequence is \<^verbatim>\<open>[90, 30, "--"]\<close>, detail
  rendering computes the valid times \<open>[90, 30]\<close> and the maximum 90. It renders, in the
  order of the sequence, the cells \<^verbatim>\<open>1:30\<close> and \<^verbatim>\<open>0:30\<close> (minutes, a colon, seconds
  padded to two digits) and then an unavailable slot for the sentinel. It renders markers
  for the two valid entries only, at 95 and 35 percent. The last conjunct is the whole
  view of a station whose entry is one line with that one destination.
\<close>

theorem wait_times_example_rendering:
  "validTimesOf [JNum 90, JNum 30, JStr ''--''] = [90, 30]
   \<and> maxTimeOf (validTimesOf [JNum 90, JNum 30, JStr ''--'']) = 90
   \<and> renderDestination lineColor occupancy (html, hasData, n)
         (destination, JArr [JNum 90, JNum 30, JStr ''--'']) =
       (html @
        [DestinationDiv (displayName destination), WaitTimesOpen,
         WaitTime (7 / 10) lineColor ''1:30'', WaitTime (7 / 30) lineColor ''0:30'', WaitTimeNA,
         DivClose,
         TrainLineOpen, TrainTrack lineColor,
         TrainIcon 95 (getOccupancyColor occupancy) ''1:30'' occupancy,
         TrainIcon 35 (getOccupancyColor occupancy) ''0:30'' occupancy,
         DivClose],
        True, n + 1)
   \<and> (waitTimesOf st = Some cwt
        \<and> lookupStation cwt name =
            Some (Entry [(line, JObj [(destination, JArr [JNum 90, JNum 30, JStr ''--''])])])
        \<and> line \<noteq> ''NA'' \<longrightarrow>
        resultsHtml (displayStation name st) =
          StationCard (displayName name)
            [LineCardOpen, LineHeader line (lineColorOf line),
             DestinationDiv (displayName destination), WaitTimesOpen,
             WaitTime (7 / 10) (lineColorOf line) ''1:30'',
             WaitTime (7 / 30) (lineColorOf line) ''0:30'', WaitTimeNA,
             DivClose,
             TrainLineOpen, TrainTrack (lineColorOf line),
             TrainIcon 95 (getOccupancyColor (occupancyPercentage st)) ''1:30''
               (occupancyPercentage st),
             TrainIcon 35 (getOccupancyColor (occupancyPercentage st)) ''0:30''
               (occupancyPercentage st),
             DivClose,
             DivClose]
            1 1)"
proof -
  have v: "validTimesOf [JNum 90, JNum 30, JStr ''--''] = [90, 30]"
    by simp
  have m: "maxTimeOf (validTimesOf [JNum 90, JNum 30, JStr ''--'']) = 90"
    by (simp add: maxTimeOf_def)
  have card: "resultsHtml (displayStation name st) =
          StationCard (displayName name)
            [LineCardOpen, LineHeader line (lineColorOf line),
             DestinationDiv (displayName destination), WaitTimesOpen,
             WaitTime (7 / 10) (lineColorOf line) ''1:30'',
             WaitTime (7 / 30) (lineColorOf line) ''0:30'', WaitTimeNA,
             DivClose,
             TrainLineOpen, TrainTrack (lineColorOf line),
             TrainIcon 95 (getOccupancyColor (occupancyPercentage st)) ''1:30''
               (occupancyPercentage st),
             TrainIcon 35 (getOccupancyColor (occupancyPercentage st)) ''0:30''
               (occupancyPercentage st),
             DivClose,
             DivClose]
            1 1"
    if w: "waitTimesOf st = Some cwt"
      and l: "lookupStation cwt name =
            Some (Entry [(line, JObj [(destination, JArr [JNum 90, JNum 30, JStr ''--''])])])"
      and na: "line \<noteq> ''NA''"
    using displayStation_found [OF w l] na
    by (simp add: renderLine_def Let_def render_example_destination)
  show ?thesis
    using v m card render_example_destination by blast
qed

theorem wait_times_example_rendering_witness:
  "waitTimesOf exampleState = Some exampleWaitTimes
   \<and> lookupStation exampleWaitTimes ''Central_Park'' =
       Some (Entry [(''Azul'', JObj [(''Airport'', JArr [JNum 90, JNum 30, JStr ''--''])])])
   \<and> ''Azul'' \<noteq> ''NA''
   \<and> resultsHtml (displayStation ''Central_Park'' exampleState) =
       StationCard ''Central Park''
         [LineCardOpen, LineHeader ''Azul'' ''#0066cc'',
          DestinationDiv ''Airport'', WaitTimesOpen,
          WaitTime (7 / 10) ''#0066cc'' ''1:30'', WaitTime (7 / 30) ''#0066cc'' ''0:30'',
          WaitTimeNA, DivClose,
          TrainLineOpen, TrainTrack ''#0066cc'',
          TrainIcon 95 ''rgb(255,90,0)'' ''1:30'' 75,
          TrainIcon 35 ''rgb(255,90,0)'' ''0:30'' 75,
          DivClose, DivClose]
         1 1"
proof -
  have l: "lookupStation exampleWaitTimes ''Central_Park'' =
       Some (Entry [(''Azul'', JObj [(''Airport'', JArr [JNum 90, JNum 30, JStr ''--''])])])"
    by (simp add: lookupStation_def resolveKey_def getStation_def objectPrototypeNames_def
        exampleWaitTimes_def)
  have na: "''Azul'' \<noteq> ''NA''" by simp
  have c: "getOccupancyColor 75 = ''rgb(255,90,0)''"
    by (simp add: getOccupancyColor_def eval_defs)
  from wait_times_example_rendering
         [of _ _ _ _ _ "''Airport''" exampleState exampleWaitTimes "''Central_Park''" "''Azul''"]
       exampleState_waitTimes l na
  have "resultsHtml (displayStation ''Central_Park'' exampleState) =
          StationCard (displayName ''Central_Park'')
            [LineCardOpen, LineHeader ''Azul'' (lineColorOf ''Azul''),
             DestinationDiv (displayName ''Airport''), WaitTimesOpen,
             WaitTime (7 / 10) (lineColorOf ''Azul'') ''1:30'',
             WaitTime (7 / 30) (lineColorOf ''Azul'') ''0:30'', WaitTimeNA,
             DivClose,
             TrainLineOpen, TrainTrack (lineColorOf ''Azul''),
             TrainIcon 95 (getOccupancyColor (occupancyPercentage exampleState)) ''1:30''
               (occupancyPercentage exampleState),
             TrainIcon 35 (getOccupancyColor (occupancyPercentage exampleState)) ''0:30''
               (occupancyPercentage exampleState),
             DivClose,
             DivClose]
            1 1"
    by blast
  then show ?thesis
    using l c
    by (simp add: exampleState_waitTimes exampleState_occupancy lineColorOf_def lineColors_def
        displayName_def replaceAll_def)
qed

subsection \<open>C2: the occupancy colour\<close>

text \<open>
  Claim C2. The occupancy colour of 0 is \<^verbatim>\<open>rgb(0,180,0)\<close>, of 50 is
  \<^verbatim>\<open>rgb(255,180,0)\<close> and of 100 is \<^verbatim>\<open>rgb(255,0,0)\<close>. Every input is clamped to the
  range from 0 to 100 before the interpolation: the colour of a percentage is the colour of
  its clamped value, so everything at or below 0 has the colour of 0 and everything at or
  above 100 has the colour of 100; in particular 150 has the colour of 100 and \<open>-20\<close> the
  colour of 0.
\<close>

theorem occupancy_color_boundaries_and_clamp:
  "getOccupancyColor 0 = ''rgb(0,180,0)''
   \<and> getOccupancyColor 50 = ''rgb(255,180,0)''
   \<and> getOccupancyColor 100 = ''rgb(255,0,0)''
   \<and> getOccupancyColor percentage = getOccupancyColor (min (max percentage 0) 100)
   \<and> (percentage \<le> 0 \<longrightarrow> getOccupancyColor percentage = getOccupancyColor 0)
   \<and> (100 \<le> percentage \<longrightarrow> getOccupancyColor percentage = getOccupancyColor 100)
   \<and> getOccupancyColor 150 = getOccupancyColor 100
   \<and> getOccupancyColor (- 20) = getOccupancyColor 0"
proof -
  have clamp: "getOccupancyColor x = getOccupancyColor (min (max x 0) 100)" for x
    by (simp add: getOccupancyColor_def)
  have low: "getOccupancyColor x = getOccupancyColor 0" if "x \<le> 0" for x
  proof -
    have "min (max x 0) 100 = 0" using that by simp
    with clamp [of x] show ?thesis by simp
  qed
  have high: "getOccupancyColor x = getOccupancyColor 100" if "100 \<le> x" for x
  proof -
    have "min (max x 0) 100 = 100" using that by simp
    with clamp [of x] show ?thesis by simp
  qed
  have "getOccupancyColor 0 = ''rgb(0,180,0)''"
    by (simp add: getOccupancyColor_def eval_defs)
  moreover have "getOccupancyColor 50 = ''rgb(255,180,0)''"
    by (simp add: getOccupancyColor_def eval_defs)
  moreover have "getOccupancyColor 100 = ''rgb(255,0,0)''"
    by (simp add: getOccupancyColor_def eval_defs)
  moreover have "getOccupancyColor 150 = getOccupancyColor 100"
    by (rule high) simp
  moreover have "getOccupancyColor (- 20) = getOccupancyColor 0"
    by (rule low) simp
  ultimately show ?thesis
    using clamp [of percentage] low [of percentage] high [of percentage] by blast
qed

theorem occupancy_color_boundaries_and_clamp_witness:
  "(100 :: real) \<le> 250 \<and> getOccupancyColor 250 = ''rgb(255,0,0)''
   \<and> (- 1 :: real) \<le> 0 \<and> getOccupancyColor (- 1) = ''rgb(0,180,0)''"
proof -
  have h: "(100 :: real) \<le> 250" and l: "(- 1 :: real) \<le> 0" by simp_all
  from occupancy_color_boundaries_and_clamp [of 250] h
  have "getOccupancyColor 250 = ''rgb(255,0,0)''" by simp
  moreover from occupancy_color_boundaries_and_clamp [of "- 1"] l
  have "getOccupancyColor (- 1) = ''rgb(0,180,0)''" by simp
  ultimately show ?thesis by simp
qed

subsection \<open>C3: closed, no data, not found\<close>



subsection \<open>C4: the selection after detail rendering\<close>

text \<open>
  Claim C4 says that detail rendering sets the selection to the resolved station
  identifier, the key found in the snapshot after the spaces of the name have become
  underscores, while the heading shows the requested name. The script stores the name as
  it was requested: asked for \<^verbatim>\<open>Central Park\<close> on a feed whose key is
  \<^verbatim>\<open>Central_Park\<close>, it finds the entry and keeps \<^verbatim>\<open>Central Park\<close> as the selection.
\<close>

theorem selection_not_resolved_key:
  "waitTimesOf exampleState = Some exampleWaitTimes
   \<and> map_of exampleWaitTimes ''Central Park'' = None
   \<and> resolveKey exampleWaitTimes ''Central Park'' = ''Central_Park''
   \<and> lookupStation exampleWaitTimes ''Central Park'' \<noteq> None
   \<and> currentStation (displayStation ''Central Park'' exampleState) = Some ''Central Park''
   \<and> currentStation (displayStation ''Central Park'' exampleState) \<noteq>
       Some (resolveKey exampleWaitTimes ''Central Park'')"
proof -
  have k: "resolveKey exampleWaitTimes ''Central Park'' = ''Central_Park''"
    by (simp add: resolveKey_def getStation_def objectPrototypeNames_def exampleWaitTimes_def
        normalizeName_def replaceAll_def)
  have m: "map_of exampleWaitTimes ''Central Park'' = None"
    by (simp add: exampleWaitTimes_def)
  have l: "lookupStation exampleWaitTimes ''Central Park'' \<noteq> None"
    by (simp add: lookupStation_def k) (simp add: getStation_def exampleWaitTimes_def)
  show ?thesis
    using k l m by (simp add: exampleState_waitTimes displayStation_currentStation)
qed

text \<open>
  Claim C4 as amended. Detail rendering sets the selection to the requested name, as it
  was given. The heading of the card it writes for a station it found is the display form
  of the requested name. The selection is the resolved key whenever the requested name is
  itself a key of the snapshot.
\<close>

theorem selection_is_requested_name:
  "currentStation (displayStation name st) = Some name
   \<and> (waitTimesOf st = Some cwt \<and> lookupStation cwt name = Some stationData \<longrightarrow>
        headingOf (resultsHtml (displayStation name st)) = Some (displayName name))
   \<and> (waitTimesOf st = Some cwt \<and> map_of cwt name \<noteq> None \<longrightarrow>
        currentStation (displayStation name st) = Some (resolveKey cwt name))"
proof -
  have h: "headingOf (resultsHtml (displayStation name st)) = Some (displayName name)"
    if "waitTimesOf st = Some cwt" "lookupStation cwt name = Some stationData"
    using displayStation_read [OF that] by (simp split: prod.splits)
  show ?thesis
    using h by (auto simp: displayStation_currentStation resolveKey_def getStation_def)
qed

theorem selection_is_requested_name_witness:
  "waitTimesOf exampleState = Some exampleWaitTimes
   \<and> lookupStation exampleWaitTimes ''Central Park'' =
       Some (Entry [(''Azul'', JObj [(''Airport'', JArr [JNum 90, JNum 30, JStr ''--''])])])
   \<and> headingOf (resultsHtml (displayStation ''Central Park'' exampleState)) =
       Some ''Central Park''
   \<and> map_of exampleWaitTimes ''Zoo'' \<noteq> None
   \<and> currentStation (displayStation ''Zoo'' exampleState) = Some ''Zoo''
   \<and> resolveKey exampleWaitTimes ''Zoo'' = ''Zoo''"
proof -
  have l: "lookupStation exampleWaitTimes ''Central Park'' =
       Some (Entry [(''Azul'', JObj [(''Airport'', JArr [JNum 90, JNum 30, JStr ''--''])])])"
    by (simp add: lookupStation_def resolveKey_def getStation_def objectPrototypeNames_def
        exampleWaitTimes_def normalizeName_def
        replaceAll_def)
  have z: "map_of exampleWaitTimes ''Zoo'' \<noteq> None"
    by (simp add: exampleWaitTimes_def)
  have k: "resolveKey exampleWaitTimes ''Zoo'' = ''Zoo''"
    using z by (auto simp: resolveKey_def getStation_def)
  have h: "headingOf (resultsHtml (displayStation ''Central Park'' exampleState)) =
       Some ''Central Park''"
    using selection_is_requested_name
            [of "''Central Park''" exampleState exampleWaitTimes
                "Entry [(''Azul'', JObj [(''Airport'', JArr [JNum 90, JNum 30, JStr ''--''])])]"]
          exampleState_waitTimes l
    by (simp add: displayName_def replaceAll_def)
  have c: "currentStation (displayStation ''Zoo'' exampleState) = Some ''Zoo''"
    using selection_is_requested_name [of "''Zoo''" exampleState exampleWaitTimes]
    by blast
  show ?thesis
    using exampleState_waitTimes l z k h c by blast
qed

subsection \<open>C5: the search filter\<close>

text \<open>
  Claim C5. The search ignores case and treats the underscores of an identifier as spaces.
  For every query the filter keeps exactly the stations whose display form (underscores
  replaced with spaces, lowercased) contains the query as a substring, in the order of
  the station list. The handler lowercases and trims the typed text, and for a query that
  is then not empty it shows the stations the filter kept. The station list is the sorted
  list of the snapshot's identifiers, and what the filter keeps of it is sorted too. The
  query \<^verbatim>\<open>cen\<close> matches the station \<^verbatim>\<open>Central_Park\<close>.
\<close>

theorem search_filter:
  "filterStations stations query =
     filter (\<lambda>station. \<exists>pre post. toLowerCase (displayName station) = pre @ query @ post) stations
   \<and> (trim (toLowerCase val) \<noteq> [] \<longrightarrow>
        suggestionsHtml (onSearchInput val st) =
          (if filterStations (allStations st) (trim (toLowerCase val)) = [] then NoStationsFound
           else SuggestionItems
                  (map (\<lambda>station. (station, displayName station))
                     (filterStations (allStations st) (trim (toLowerCase val))))))
   \<and> allStations (onValue (Some data) st0) =
        sort (map fst (case current_wait_times data of None \<Rightarrow> [] | Some cwt \<Rightarrow> cwt))
   \<and> sorted (filterStations (allStations (onValue (Some data) st0)) query)
   \<and> filterStations [''Airport'', ''Central_Park'', ''Zoo''] (trim (toLowerCase ''cen'')) =
        [''Central_Park'']"
proof -
  have a: "filterStations stations query =
     filter (\<lambda>station. \<exists>pre post. toLowerCase (displayName station) = pre @ query @ post) stations"
    by (simp add: filterStations_def includesStr_iff displayName_toLowerCase)
  have b: "suggestionsHtml (onSearchInput val st) =
          (if filterStations (allStations st) (trim (toLowerCase val)) = [] then NoStationsFound
           else SuggestionItems
                  (map (\<lambda>station. (station, displayName station))
                     (filterStations (allStations st) (trim (toLowerCase val)))))"
    if "trim (toLowerCase val) \<noteq> []"
    using that by (simp add: onSearchInput_def Let_def)
  have c: "filterStations [''Airport'', ''Central_Park'', ''Zoo''] (trim (toLowerCase ''cen'')) =
        [''Central_Park'']"
    by (simp add: filterStations_def trim_def toLowerCase_def lowerChar_def isWhiteSpace_def
        displayName_def replaceAll_def)
  have d: "sorted (filterStations (allStations (onValue (Some data) st0)) query)"
    by (simp add: onValue_allStations filterStations_def sorted_wrt_filter)
  show ?thesis using a b c d onValue_allStations [of data st0] by blast
qed

theorem search_filter_witness:
  "trim (toLowerCase '' CEN '') = ''cen''
   \<and> suggestionsHtml (onSearchInput '' CEN '' exampleState) =
       SuggestionItems [(''Central_Park'', ''Central Park'')]"
proof -
  have q: "trim (toLowerCase '' CEN '') = ''cen''"
    by (simp add: trim_def toLowerCase_def lowerChar_def isWhiteSpace_def)
  have f: "filterStations (allStations exampleState) ''cen'' = [''Central_Park'']"
    by (simp add: exampleState_allStations filterStations_def toLowerCase_def lowerChar_def
        displayName_def replaceAll_def)
  have "trim (toLowerCase '' CEN '') \<noteq> []" using q by simp
  with search_filter [of "[]" "[]" "'' CEN ''" exampleState exampleSnapshot initialState]
  have "suggestionsHtml (onSearchInput '' CEN '' exampleState) =
          (if filterStations (allStations exampleState) (trim (toLowerCase '' CEN '')) = []
           then NoStationsFound
           else SuggestionItems
                  (map (\<lambda>station. (station, displayName station))
                     (filterStations (allStations exampleState) (trim (toLowerCase '' CEN '')))))"
    by blast
  then show ?thesis using q f by (simp add: displayName_def replaceAll_def)
qed

subsection \<open>C6: how a station is looked up\<close>



subsection \<open>C7: the occupancy percentage across snapshots\<close>

text \<open>
  Claim C7. A delivered snapshot without the field \<^verbatim>\<open>Occupancy\<close> leaves the stored
  occupancy percentage as it was: the value of an earlier snapshot, or the built-in 50
  before any snapshot carried the field. A delivered snapshot with the field replaces the
  stored value by the field's. A delivery without a value changes nothing.
\<close>

theorem occupancy_kept_or_replaced:
  "occupancyPercentage initialState = 50
   \<and> occupancyPercentage (onValue (Some data) st) =
       (case Occupancy data of None \<Rightarrow> occupancyPercentage st | Some v \<Rightarrow> v)
   \<and> occupancyPercentage (onValue None st) = occupancyPercentage st"
  by (simp add: onValue_def Let_def displayStation_occupancy showStationList_occupancy
      storeSnapshot_occupancy initialState_def split: option.splits)

subsection \<open>C8: display name and canonical name\<close>

text \<open>
  Claim C8. For every identifier \<open>x\<close>, with or without underscores, the display name of
  the canonical form of the display name of \<open>x\<close> is the display name of \<open>x\<close>; the
  display name replaces underscores with spaces, the canonical form spaces with
  underscores.
\<close>

theorem display_name_round_trip:
  "displayName (normalizeName (displayName x)) = displayName x"
  by (simp add: displayName_def normalizeName_def replaceAll_def)

subsection \<open>C9: the selection is recorded before the checks\<close>

text \<open>
  Claim C9. Detail rendering records the requested station name as the selection before
  it checks anything, so the selection is the requested name also when no snapshot has
  arrived (the view is the loading placeholder) and when the station is not found. The
  next delivered snapshot (a delivery that carries a value) then renders the detail view
  of that name again, and not the station list. A station name is not empty; the
  subscription's callback takes an empty selection for no selection.
\<close>

theorem selection_recorded_before_checks:
  "currentStation (displayStation name st) = Some name
   \<and> (waitTimesOf st = None \<longrightarrow>
        resultsHtml (displayStation name st) = EmptyState ''Loading data...'')
   \<and> (waitTimesOf st = Some cwt \<and> lookupStation cwt name = None \<longrightarrow>
        resultsHtml (displayStation name st) = EmptyState ''Station not found'')
   \<and> (name \<noteq> [] \<longrightarrow>
        onValue (Some data) (displayStation name st) =
          displayStation name (storeSnapshot data (displayStation name st)))
   \<and> (\<forall>items. resultsHtml (displayStation name st') \<noteq> StationList items)"
proof -
  have r: "onValue (Some data) (displayStation name st) =
          displayStation name (storeSnapshot data (displayStation name st))"
    if "name \<noteq> []"
    using that
    by (simp add: onValue_def Let_def storeSnapshot_currentStation displayStation_currentStation)
  have n: "resultsHtml (displayStation name st') \<noteq> StationList items" for items
    by (simp add: displayStation_def Let_def split: option.splits prod.splits)
  show ?thesis
    using r n displayStation_loading [of st name] displayStation_absent [of st cwt name]
    by (simp add: displayStation_currentStation)
qed

theorem selection_recorded_before_checks_witness:
  "waitTimesOf initialState = None
   \<and> ''Central_Park'' \<noteq> []
   \<and> currentStation (displayStation ''Central_Park'' initialState) = Some ''Central_Park''
   \<and> resultsHtml (displayStation ''Central_Park'' initialState) = EmptyState ''Loading data...''
   \<and> headingOf (resultsHtml
         (onValue (Some exampleSnapshot) (displayStation ''Central_Park'' initialState))) =
       Some ''Central Park''
   \<and> waitTimesOf exampleState = Some exampleWaitTimes
   \<and> lookupStation exampleWaitTimes ''Nowhere'' = None
   \<and> currentStation (displayStation ''Nowhere'' exampleState) = Some ''Nowhere''
   \<and> resultsHtml (displayStation ''Nowhere'' exampleState) = EmptyState ''Station not found''
   \<and> currentStation (onValue (Some exampleSnapshot) (displayStation ''Nowhere'' exampleState)) =
       Some ''Nowhere''
   \<and> resultsHtml (onValue (Some exampleSnapshot) (displayStation ''Nowhere'' exampleState)) =
       EmptyState ''Station not found''"
proof -
  have i: "waitTimesOf initialState = None"
    by (simp add: waitTimesOf_def initialState_def)
  have ne: "''Central_Park'' \<noteq> []" "''Nowhere'' \<noteq> []" by simp_all
  have l: "lookupStation exampleWaitTimes ''Nowhere'' = None"
    by (simp add: lookupStation_def resolveKey_def getStation_def objectPrototypeNames_def
        exampleWaitTimes_def normalizeName_def
        replaceAll_def)
  have w: "waitTimesOf (storeSnapshot exampleSnapshot st) = Some exampleWaitTimes" for st
    by (simp add: storeSnapshot_def updateLastUpdate_def waitTimesOf_def exampleSnapshot_def)
  have lc: "lookupStation exampleWaitTimes ''Central_Park'' =
       Some (Entry [(''Azul'', JObj [(''Airport'', JArr [JNum 90, JNum 30, JStr ''--''])])])"
    by (simp add: lookupStation_def resolveKey_def getStation_def objectPrototypeNames_def
        exampleWaitTimes_def)
  note a = selection_recorded_before_checks
             [of "''Central_Park''" initialState exampleWaitTimes exampleSnapshot]
  note b = selection_recorded_before_checks
             [of "''Nowhere''" exampleState exampleWaitTimes exampleSnapshot]
  have a1: "currentStation (displayStation ''Central_Park'' initialState) = Some ''Central_Park''"
    using a by blast
  have a2: "resultsHtml (displayStation ''Central_Park'' initialState) =
      EmptyState ''Loading data...''"
    using a i by blast
  have a3: "onValue (Some exampleSnapshot) (displayStation ''Central_Park'' initialState) =
      displayStation ''Central_Park''
        (storeSnapshot exampleSnapshot (displayStation ''Central_Park'' initialState))"
    using a ne by blast
  have a4: "headingOf (resultsHtml
         (onValue (Some exampleSnapshot) (displayStation ''Central_Park'' initialState))) =
       Some ''Central Park''"
    unfolding a3 using displayStation_found [OF w lc]
    by (simp add: displayName_def replaceAll_def split: prod.splits)
  have b1: "currentStation (displayStation ''Nowhere'' exampleState) = Some ''Nowhere''"
    using b by blast
  have b2: "resultsHtml (displayStation ''Nowhere'' exampleState) =
      EmptyState ''Station not found''"
    using b exampleState_waitTimes l by blast
  have b3: "onValue (Some exampleSnapshot) (displayStation ''Nowhere'' exampleState) =
      displayStation ''Nowhere''
        (storeSnapshot exampleSnapshot (displayStation ''Nowhere'' exampleState))"
    using b ne by blast
  have b4: "currentStation
        (onValue (Some exampleSnapshot) (displayStation ''Nowhere'' exampleState)) =
      Some ''Nowhere''"
    unfolding b3 by (rule displayStation_currentStation)
  have b5: "resultsHtml
        (onValue (Some exampleSnapshot) (displayStation ''Nowhere'' exampleState)) =
      EmptyState ''Station not found''"
    unfolding b3 using displayStation_absent [OF w l] .
  show ?thesis
    using i ne(1) a1 a2 a4 exampleState_waitTimes l b1 b2 b4 b5 by blast
qed

subsection \<open>C10: the closed marker beside other lines\<close>

text \<open>
  Claim C10. A station entry that holds the key \<^verbatim>\<open>NA\<close> with the value \<^verbatim>\<open>"NA"\<close> is
  rendered as the closed message also when it holds other line keys: the check comes
  before the loop over the lines, so no line of the entry is rendered.
\<close>

theorem closed_marker_beside_lines:
  assumes "waitTimesOf st = Some cwt"
    and "lookupStation cwt name = Some (Entry entry)"
    and "distinct (map fst entry)"
    and "(''NA'', JStr ''NA'') \<in> set entry"
  shows "resultsHtml (displayStation name st) =
           MessageCard (displayName name) ''Station is currently closed''
       \<and> (\<forall>heading html totalLines totalDestinations.
             resultsHtml (displayStation name st) \<noteq>
               StationCard heading html totalLines totalDestinations)"
proof -
  have "map_of entry ''NA'' = Some (JStr ''NA'')"
    using assms(3,4) by simp
  then show ?thesis
    using displayStation_found [OF assms(1,2)] by simp
qed

theorem closed_marker_beside_lines_witness:
  "waitTimesOf exampleState = Some exampleWaitTimes
   \<and> lookupStation exampleWaitTimes ''Harbour'' =
       Some (Entry [(''Verde'', JObj [(''Zoo'', JArr [JNum 60])]), (''NA'', JStr ''NA'')])
   \<and> distinct (map fst [(''Verde'', JObj [(''Zoo'', JArr [JNum 60])]), (''NA'', JStr ''NA'')])
   \<and> (''NA'', JStr ''NA'') \<in>
       set [(''Verde'', JObj [(''Zoo'', JArr [JNum 60])]), (''NA'', JStr ''NA'')]
   \<and> resultsHtml (displayStation ''Harbour'' exampleState) =
       MessageCard ''Harbour'' ''Station is currently closed''"
proof -
  have l: "lookupStation exampleWaitTimes ''Harbour'' =
       Some (Entry [(''Verde'', JObj [(''Zoo'', JArr [JNum 60])]), (''NA'', JStr ''NA'')])"
    by (simp add: lookupStation_def resolveKey_def getStation_def objectPrototypeNames_def
        exampleWaitTimes_def)
  have d: "distinct (map fst [(''Verde'', JObj [(''Zoo'', JArr [JNum 60])]), (''NA'', JStr ''NA'')])"
    by simp
  have m: "(''NA'', JStr ''NA'') \<in>
       set [(''Verde'', JObj [(''Zoo'', JArr [JNum 60])]), (''NA'', JStr ''NA'')]"
    by simp
  have "resultsHtml (displayStation ''Harbour'' exampleState) =
       MessageCard ''Harbour'' ''Station is currently closed''"
    using closed_marker_beside_lines [OF exampleState_waitTimes l d m]
    by (simp add: displayName_def replaceAll_def)
  then show ?thesis
    using exampleState_waitTimes l d m by blast
qed

end
